theory Spec2Isabelle
  imports Complex_Main
begin

section \<open>Wallet risk scoring: the scoring engine of app.py\<close>

text \<open>
  A shallow embedding of the class \<^verbatim>\<open>ImprovedWalletRiskScorer\<close> of \<^verbatim>\<open>src/app.py\<close>:
  feature extraction, the two risk-component algorithms, the composite score, the
  category table and the orchestrator \<^verbatim>\<open>analyze_wallet\<close>.

  Conventions of the model.
  \<^item> Python floats are modelled as \<^typ>\<open>real\<close>: every formula is read as exact
    arithmetic, rounding error of the binary format is not modelled.
  \<^item> The dictionaries with a fixed key set are records; a key that only one of the two
    shapes has is an optional field.
  \<^item> Extraction is modelled in two layers. \<open>read_transactions\<close> reads the fetched
    dictionaries in the order of the source's three list comprehensions and raises where
    they raise: a missing key, \<^verbatim>\<open>int(...)\<close> on a text that is no integer, a value too
    large for the float division, a timestamp \<^verbatim>\<open>datetime.fromtimestamp\<close> refuses.
    \<open>extract_comprehensive_features\<close> is the computation on the values read, which
    raises nowhere.
  \<^item> A datetime is the number of seconds on the local calendar's axis (a naive local
    datetime, as \<^verbatim>\<open>datetime.fromtimestamp\<close> and \<^verbatim>\<open>datetime.now()\<close> return it). A
    transaction that has been read holds the datetime of its timestamp, and
    \<^verbatim>\<open>datetime.now()\<close> is an explicit argument \<open>now\<close> on the same axis.
    \<^verbatim>\<open>(now - t).days\<close> is the floor of the difference divided by 86400 (a timedelta
    normalises its days downwards), and \<^verbatim>\<open>t > now - timedelta(days=30)\<close> compares a
    datetime of whole seconds with the clock, so the sub-second part of the clock
    changes neither.
  \<^item> Python's built-ins \<^verbatim>\<open>int\<close> on a text, \<^verbatim>\<open>datetime.fromtimestamp\<close> and
    \<^verbatim>\<open>round\<close> on a float, the clock and the two requests to the block explorer are
    fields of an \<open>environment\<close>: the model fixes none of them.
  \<^item> The perturbation of the inactive branch,
    \<^verbatim>\<open>np.random.seed(hash(str(b)) % 2**32); np.random.normal(0, 0.05)\<close>, is an explicit
    argument \<open>draw\<close> of the component calculation: the value one evaluation draws for
    the balance it is given. Nothing is assumed about how the values of two evaluations
    relate.
  \<^item> An exception that \<^verbatim>\<open>except Exception\<close> catches is the left injection of a sum,
    carrying \<^verbatim>\<open>str(e)\<close>.
\<close>

subsection \<open>Data\<close>

text \<open>The dictionary returned by \<^verbatim>\<open>get_wallet_basic_info\<close>.\<close>

record basic_info =
  info_eth_balance :: real
  info_total_tx_count :: int
  info_is_active :: bool

text \<open>
  A classified transaction as the extraction has read it: \<open>timeStamp\<close> is the datetime
  \<^verbatim>\<open>datetime.fromtimestamp(int(tx['timeStamp']))\<close>, \<open>value_wei\<close> is \<^verbatim>\<open>int(tx['value'])\<close>,
  \<open>isError\<close> is \<^verbatim>\<open>tx['isError']\<close>, and the two flags are \<^verbatim>\<open>tx.get('is_compound', False)\<close>
  and \<^verbatim>\<open>tx.get('is_defi', False)\<close>.
\<close>

record transaction =
  timeStamp :: int
  value_wei :: int
  isError :: string
  is_compound :: bool
  is_defi :: bool

text \<open>
  The feature dictionary. \<^verbatim>\<open>inactive_risk_modifier\<close> is a key of the inactive shape
  only.
\<close>

record features =
  eth_balance :: real
  total_tx_count :: int
  is_active_wallet :: bool
  analyzed_transactions :: nat
  successful_transactions :: nat
  failed_transactions :: int
  success_rate :: real
  compound_transactions :: nat
  defi_transactions :: nat
  compound_ratio :: real
  defi_ratio :: real
  total_volume_eth :: real
  avg_tx_value_eth :: real
  max_tx_value_eth :: real
  volume_volatility :: real
  large_tx_count :: nat
  large_tx_ratio :: real
  days_since_first_tx :: int
  days_since_last_tx :: int
  avg_monthly_frequency :: real
  recent_activity_count :: nat
  activity_decline :: real
  wallet_maturity :: real
  engagement_score :: real
  volume_concentration :: real
  inactive_risk_modifier :: "real option"

text \<open>The six risk components, in the order the dictionaries list them.\<close>

record risk_components =
  liquidation_risk :: real
  volatility_risk :: real
  concentration_risk :: real
  activity_risk :: real
  leverage_risk :: real
  liquidity_risk :: real

subsection \<open>Feature extraction\<close>

text \<open>\<^verbatim>\<open>np.mean\<close> and \<^verbatim>\<open>np.std\<close> (population standard deviation) of a list.\<close>

definition np_mean :: "real list \<Rightarrow> real" where
  "np_mean xs = sum_list xs / real (length xs)"

definition np_std :: "real list \<Rightarrow> real" where
  "np_std xs = sqrt (np_mean (map (\<lambda>v. (v - np_mean xs)\<^sup>2) xs))"

text \<open>\<^verbatim>\<open>_get_inactive_wallet_features\<close>\<close>

definition get_inactive_wallet_features :: "basic_info \<Rightarrow> features" where
  "get_inactive_wallet_features basic_info =
    (let eth_bal = info_eth_balance basic_info;
         tx_count = info_total_tx_count basic_info;
         risk_modifier =
           (if tx_count = 0 \<and> eth_bal = 0 then 0.3
            else if tx_count = 0 \<and> eth_bal > 0 then 0.6
            else if tx_count > 0 \<and> eth_bal = 0 then 0.8
            else 0.5)
     in \<lparr> eth_balance = eth_bal,
          total_tx_count = tx_count,
          is_active_wallet = False,
          analyzed_transactions = 0,
          successful_transactions = 0,
          failed_transactions = 0,
          success_rate = 0,
          compound_transactions = 0,
          defi_transactions = 0,
          compound_ratio = 0,
          defi_ratio = 0,
          total_volume_eth = 0,
          avg_tx_value_eth = 0,
          max_tx_value_eth = 0,
          volume_volatility = 0,
          large_tx_count = 0,
          large_tx_ratio = 0,
          days_since_first_tx = 0,
          days_since_last_tx = 999,
          avg_monthly_frequency = 0,
          recent_activity_count = 0,
          activity_decline = 1,
          wallet_maturity = 0,
          engagement_score = 0,
          volume_concentration = 0,
          inactive_risk_modifier = Some risk_modifier \<rparr>)"

text \<open>
  \<^verbatim>\<open>extract_comprehensive_features\<close>, on the values read from the dictionaries (the reads
  themselves are \<open>read_transactions\<close> below). The branch \<^verbatim>\<open>if tx_times: ... else\<close> and the
  guards \<^verbatim>\<open>if tx_values else 0\<close> sit below \<^verbatim>\<open>if not transactions: return\<close>, where both
  lists have the length of \<open>transactions\<close> and are not empty; the model keeps the
  guards on \<open>tx_values\<close>.
\<close>

definition extract_comprehensive_features ::
    "int \<Rightarrow> string \<Rightarrow> basic_info \<Rightarrow> transaction list \<Rightarrow> features" where
  "extract_comprehensive_features now wallet_address basic_info transactions =
    (if transactions = [] then get_inactive_wallet_features basic_info
     else
       let total_transactions = length transactions;
           successful_txs = filter (\<lambda>tx. isError tx = ''0'') transactions;
           failed_txs = int total_transactions - int (length successful_txs);
           compound_txs = filter is_compound transactions;
           defi_txs = filter is_defi transactions;
           tx_values = map (\<lambda>tx. real_of_int (value_wei tx) / 10 ^ 18) transactions;
           total_volume = sum_list tx_values;
           tx_times = map timeStamp transactions;
           first_days = (now - Min (set tx_times)) div 86400;
           last_days = (now - Max (set tx_times)) div 86400;
           avg_tx_frequency =
             real total_transactions / real_of_int (max first_days 1) * 30;
           large_tx_threshold = max (np_mean tx_values * 3) 0.1;
           large_transactions = filter (\<lambda>v. v > large_tx_threshold) tx_values;
           recent_30_days = now - 30 * 86400;
           recent_txs = length (filter (\<lambda>t. t > recent_30_days) tx_times)
       in \<lparr> eth_balance = info_eth_balance basic_info,
            total_tx_count = info_total_tx_count basic_info,
            is_active_wallet = info_is_active basic_info,
            analyzed_transactions = total_transactions,
            successful_transactions = length successful_txs,
            failed_transactions = failed_txs,
            success_rate = real (length successful_txs) / real (max total_transactions 1),
            compound_transactions = length compound_txs,
            defi_transactions = length defi_txs,
            compound_ratio = real (length compound_txs) / real (max total_transactions 1),
            defi_ratio = real (length defi_txs) / real (max total_transactions 1),
            total_volume_eth = total_volume,
            avg_tx_value_eth = (if tx_values \<noteq> [] then np_mean tx_values else 0),
            max_tx_value_eth = (if tx_values \<noteq> [] then Max (set tx_values) else 0),
            volume_volatility = (if length tx_values > 1 then np_std tx_values else 0),
            large_tx_count = length large_transactions,
            large_tx_ratio = real (length large_transactions) / real (max total_transactions 1),
            days_since_first_tx = first_days,
            days_since_last_tx = last_days,
            avg_monthly_frequency = avg_tx_frequency,
            recent_activity_count = recent_txs,
            activity_decline =
              1 - real recent_txs / max (real total_transactions / 12) 1,
            wallet_maturity = min 1 (real_of_int first_days / 365),
            engagement_score =
              real (length compound_txs + length defi_txs) / real (max total_transactions 1),
            volume_concentration =
              (if tx_values \<noteq> [] then Max (set tx_values) / max total_volume 1 else 0),
            inactive_risk_modifier = None \<rparr>)"

subsection \<open>Risk components\<close>

text \<open>
  The dictionary \<^verbatim>\<open>base_risks\<close> of \<^verbatim>\<open>_calculate_inactive_wallet_risk\<close>. The locals
  \<^verbatim>\<open>risk_modifier\<close>, \<^verbatim>\<open>balance_factor\<close> and \<^verbatim>\<open>activity_factor\<close> are computed there;
  only \<^verbatim>\<open>balance_factor\<close> reaches the result.
\<close>

definition base_risks :: "features \<Rightarrow> risk_components" where
  "base_risks f =
    (let eth_bal = eth_balance f; tx_count = total_tx_count f in
     if tx_count = 0 \<and> eth_bal = 0 then
       \<lparr> liquidation_risk = 0.2, volatility_risk = 0.1, concentration_risk = 0.3,
         activity_risk = 0.9, leverage_risk = 0.1, liquidity_risk = 0.7 \<rparr>
     else if tx_count = 0 \<and> eth_bal > 0 then
       (let balance_factor = min 1 (eth_bal / 10) in
        \<lparr> liquidation_risk = 0.3, volatility_risk = 0.2, concentration_risk = 0.4,
          activity_risk = 0.8, leverage_risk = 0.2,
          liquidity_risk = 0.6 * (1 - balance_factor) \<rparr>)
     else if tx_count > 0 \<and> eth_bal = 0 then
       \<lparr> liquidation_risk = 0.6, volatility_risk = 0.4, concentration_risk = 0.5,
         activity_risk = 0.7, leverage_risk = 0.4, liquidity_risk = 0.8 \<rparr>
     else
       \<lparr> liquidation_risk = 0.4, volatility_risk = 0.3, concentration_risk = 0.4,
         activity_risk = 0.6, leverage_risk = 0.3, liquidity_risk = 0.5 \<rparr>)"

text \<open>\<^verbatim>\<open>max(0, min(1, v + variation))\<close>\<close>

definition perturb :: "real \<Rightarrow> real \<Rightarrow> real" where
  "perturb variation v = max 0 (min 1 (v + variation))"

text \<open>\<^verbatim>\<open>_calculate_inactive_wallet_risk\<close>: one draw, added to each base risk.\<close>

definition calculate_inactive_wallet_risk :: "(real \<Rightarrow> real) \<Rightarrow> features \<Rightarrow> risk_components" where
  "calculate_inactive_wallet_risk draw f =
    (let b = base_risks f; variation = draw (eth_balance f) in
     \<lparr> liquidation_risk = perturb variation (liquidation_risk b),
       volatility_risk = perturb variation (volatility_risk b),
       concentration_risk = perturb variation (concentration_risk b),
       activity_risk = perturb variation (activity_risk b),
       leverage_risk = perturb variation (leverage_risk b),
       liquidity_risk = perturb variation (liquidity_risk b) \<rparr>)"

text \<open>\<^verbatim>\<open>calculate_improved_risk_components\<close>\<close>

definition calculate_improved_risk_components ::
    "(real \<Rightarrow> real) \<Rightarrow> features \<Rightarrow> risk_components" where
  "calculate_improved_risk_components draw f =
    (if \<not> is_active_wallet f then calculate_inactive_wallet_risk draw f
     else
       let volume_volatility_norm = volume_volatility f / max (avg_tx_value_eth f) 0.01 in
       \<lparr> liquidation_risk = min 1
           (0.3 * (1 - success_rate f) +
            0.3 * min 1 (real_of_int (days_since_last_tx f) / 90) +
            0.2 * (1 - engagement_score f) +
            0.2 * activity_decline f),
         volatility_risk = min 1
           (0.4 * min 1 volume_volatility_norm +
            0.3 * large_tx_ratio f +
            0.3 * (1 - min 1 (real (analyzed_transactions f) / 50))),
         concentration_risk = min 1
           (0.5 * volume_concentration f +
            0.3 * (1 - engagement_score f) +
            0.2 * (1 - min 1 (real (analyzed_transactions f) / 30))),
         activity_risk = min 1
           (0.4 * min 1 (real_of_int (days_since_last_tx f) / 60) +
            0.3 * (1 - min 1 (avg_monthly_frequency f / 5)) +
            0.3 * activity_decline f),
         leverage_risk = min 1
           (0.4 * large_tx_ratio f +
            0.3 * (1 - defi_ratio f) +
            0.3 * min 1 (max_tx_value_eth f / max (avg_tx_value_eth f * 5) 0.1)),
         liquidity_risk = min 1
           (0.3 * (1 - min 1 (total_volume_eth f / 5)) +
            0.3 * min 1 (real_of_int (days_since_last_tx f) / 45) +
            0.2 * (real_of_int (failed_transactions f) / real (max (analyzed_transactions f) 1)) +
            0.2 * (1 - min 1 (eth_balance f / 0.1))) \<rparr>)"

subsection \<open>Composite score and category\<close>

text \<open>
  The local \<^verbatim>\<open>weighted_score\<close>: the sum over the components' dictionary, each times
  its entry of \<^verbatim>\<open>self.risk_weights\<close>.
\<close>

definition weighted_score :: "risk_components \<Rightarrow> real" where
  "weighted_score rc =
     0 + liquidation_risk rc * 0.25 + volatility_risk rc * 0.20
       + concentration_risk rc * 0.15 + activity_risk rc * 0.15
       + leverage_risk rc * 0.15 + liquidity_risk rc * 0.10"

definition calculate_composite_score :: "risk_components \<Rightarrow> features \<Rightarrow> real" where
  "calculate_composite_score rc f =
    (let scaled_score =
       (if \<not> is_active_wallet f then 200 + weighted_score rc * 500
        else
          let engagement_bonus = engagement_score f * 100;
              maturity_bonus = wallet_maturity f * 50
          in weighted_score rc * 800 + 100 - engagement_bonus - maturity_bonus)
     in max 0 (min 1000 scaled_score))"

definition categorize_risk :: "real \<Rightarrow> string" where
  "categorize_risk score =
    (if score \<le> 150 then ''Very Low''
     else if score \<le> 350 then ''Low''
     else if score \<le> 550 then ''Medium''
     else if score \<le> 750 then ''High''
     else ''Very High'')"

subsection \<open>Reading the fetched dictionaries\<close>




text \<open>
  A list comprehension whose body may raise: the elements are evaluated in order and
  the first exception ends it.
\<close>

fun comprehension :: "('a \<Rightarrow> string + 'b) \<Rightarrow> 'a list \<Rightarrow> string + 'b list" where
  "comprehension g [] = Inr []"
| "comprehension g (x # xs) =
     (case g x of
        Inl e \<Rightarrow> Inl e
      | Inr y \<Rightarrow> (case comprehension g xs of Inl e \<Rightarrow> Inl e | Inr ys \<Rightarrow> Inr (y # ys)))"







subsection \<open>The orchestrator\<close>


text \<open>
  The dictionary \<^verbatim>\<open>analyze_wallet\<close> returns. Both shapes have the first four keys;
  the failure shape adds \<^verbatim>\<open>error_message\<close>, the success shape the keys of
  \<open>result_details\<close>.
\<close>

record result_details =
  res_eth_balance :: real
  res_total_tx_count :: int
  res_analyzed_transactions :: nat
  res_compound_transactions :: nat
  res_defi_transactions :: nat
  res_success_rate :: real
  res_days_since_last_tx :: int
  res_engagement_score :: real
  res_is_active_wallet :: bool
  liquidation_risk_score :: real
  volatility_risk_score :: real
  concentration_risk_score :: real
  activity_risk_score :: real
  leverage_risk_score :: real
  liquidity_risk_score :: real

record analysis_result =
  wallet_address :: string
  risk_score :: real
  risk_category :: string
  analysis_status :: string
  error_message :: "string option"
  details :: "result_details option"




subsection \<open>Reading a component by its key, sample inputs\<close>

datatype component = Liquidation | Volatility | Concentration | Activity | Leverage | Liquidity

fun component_of :: "component \<Rightarrow> risk_components \<Rightarrow> real" where
  "component_of Liquidation rc = liquidation_risk rc"
| "component_of Volatility rc = volatility_risk rc"
| "component_of Concentration rc = concentration_risk rc"
| "component_of Activity rc = activity_risk rc"
| "component_of Leverage rc = leverage_risk rc"
| "component_of Liquidity rc = liquidity_risk rc"

text \<open>A successful plain transfer of \<open>w\<close> wei at time \<open>t\<close>.\<close>

definition transfer_at :: "int \<Rightarrow> int \<Rightarrow> transaction" where
  "transfer_at t w =
     \<lparr> timeStamp = t, value_wei = w, isError = ''0'', is_compound = False, is_defi = False \<rparr>"

text \<open>
  What \<^verbatim>\<open>get_wallet_basic_info\<close> returns for balance \<open>b\<close> and transaction count \<open>n\<close>:
  \<^verbatim>\<open>is_active\<close> is \<^verbatim>\<open>total_tx_count > 0 and eth_balance > 0\<close>.
\<close>

definition snapshot :: "real \<Rightarrow> int \<Rightarrow> basic_info" where
  "snapshot b n =
     \<lparr> info_eth_balance = b, info_total_tx_count = n, info_is_active = (n > 0 \<and> b > 0) \<rparr>"

text \<open>The data model's invariant on the components: each of the six lies in \<open>[0,1]\<close>.\<close>

definition components_in_unit :: "risk_components \<Rightarrow> bool" where
  "components_in_unit rc \<longleftrightarrow>
     0 \<le> liquidation_risk rc \<and> liquidation_risk rc \<le> 1 \<and>
     0 \<le> volatility_risk rc \<and> volatility_risk rc \<le> 1 \<and>
     0 \<le> concentration_risk rc \<and> concentration_risk rc \<le> 1 \<and>
     0 \<le> activity_risk rc \<and> activity_risk rc \<le> 1 \<and>
     0 \<le> leverage_risk rc \<and> leverage_risk rc \<le> 1 \<and>
     0 \<le> liquidity_risk rc \<and> liquidity_risk rc \<le> 1"

text \<open>
  A funded wallet with three successful one-ether transfers, all at the moment of the
  analysis: the features \<^verbatim>\<open>extract_comprehensive_features\<close> computes for it.
\<close>

definition burst_features :: features where
  "burst_features =
     extract_comprehensive_features 1700000000 ''0xabc'' (snapshot 1 3)
       (replicate 3 (transfer_at 1700000000 (10 ^ 18)))"

text \<open>The never-used wallet (no balance, no transactions) and a constant draw.\<close>

definition unused_features :: features where
  "unused_features = extract_comprehensive_features 1700000000 ''0xabc'' (snapshot 0 0) []"

definition fixed_draw :: "real \<Rightarrow> real \<Rightarrow> real" where
  "fixed_draw v b = v"



text \<open>
  A wallet whose snapshot shows no balance and no transaction count while one transfer
  was fetched: the active shape with \<^verbatim>\<open>is_active_wallet\<close> false.
\<close>

definition drained_features :: features where
  "drained_features =
     extract_comprehensive_features 1700000000 ''0xabc'' (snapshot 0 0)
       [transfer_at 1700000000 (10 ^ 18)]"









section \<open>Properties\<close>

subsection \<open>Shared lemmas\<close>

lemma perturb_unit: "0 \<le> perturb v x \<and> perturb v x \<le> 1"
  by (simp add: perturb_def)

lemma perturb_mono: "x \<le> y \<Longrightarrow> perturb v x \<le> perturb v y"
  by (simp add: perturb_def max_def min_def)

lemma inactive_components_in_unit:
  "components_in_unit (calculate_inactive_wallet_risk draw f)"
  by (simp add: components_in_unit_def calculate_inactive_wallet_risk_def Let_def perturb_unit)

lemma inactive_dispatch:
  "\<not> is_active_wallet f \<Longrightarrow>
     calculate_improved_risk_components draw f = calculate_inactive_wallet_risk draw f"
  by (simp add: calculate_improved_risk_components_def)

lemma active_components_le_one:
  "is_active_wallet f \<Longrightarrow> component_of c (calculate_improved_risk_components draw f) \<le> 1"
  by (cases c) (simp_all add: calculate_improved_risk_components_def Let_def)

lemma active_liquidation_risk:
  "is_active_wallet f \<Longrightarrow>
     liquidation_risk (calculate_improved_risk_components draw f) =
       min 1 (0.3 * (1 - success_rate f)
              + 0.3 * min 1 (real_of_int (days_since_last_tx f) / 90)
              + 0.2 * (1 - engagement_score f) + 0.2 * activity_decline f)"
  by (simp add: calculate_improved_risk_components_def Let_def)

lemma active_liquidation_risk_zero:
  "is_active_wallet f \<Longrightarrow> success_rate f = 1 \<Longrightarrow> days_since_last_tx f = 0 \<Longrightarrow>
   engagement_score f = 1 \<Longrightarrow> activity_decline f = 0 \<Longrightarrow>
     liquidation_risk (calculate_improved_risk_components draw f) = 0"
  by (simp add: active_liquidation_risk)

lemma weighted_score_unit:
  assumes "components_in_unit rc"
  shows "0 \<le> weighted_score rc \<and> weighted_score rc \<le> 1"
proof -
  from assms have b:
    "0 \<le> liquidation_risk rc" "liquidation_risk rc \<le> 1"
    "0 \<le> volatility_risk rc" "volatility_risk rc \<le> 1"
    "0 \<le> concentration_risk rc" "concentration_risk rc \<le> 1"
    "0 \<le> activity_risk rc" "activity_risk rc \<le> 1"
    "0 \<le> leverage_risk rc" "leverage_risk rc \<le> 1"
    "0 \<le> liquidity_risk rc" "liquidity_risk rc \<le> 1"
    by (simp_all add: components_in_unit_def)
  have w: "weighted_score rc =
     liquidation_risk rc / 4 + volatility_risk rc / 5 + concentration_risk rc * 3 / 20
     + activity_risk rc * 3 / 20 + leverage_risk rc * 3 / 20 + liquidity_risk rc / 10"
    by (simp add: weighted_score_def)
  from b show ?thesis unfolding w by linarith
qed

lemma unused_base_risks:
  "base_risks unused_features =
      \<lparr> liquidation_risk = 0.2, volatility_risk = 0.1, concentration_risk = 0.3,
        activity_risk = 0.9, leverage_risk = 0.1, liquidity_risk = 0.7 \<rparr>"
  by (simp add: base_risks_def unused_features_def extract_comprehensive_features_def
      get_inactive_wallet_features_def snapshot_def Let_def)


lemma comprehension_raises:
  "comprehension g xs = Inl e \<Longrightarrow> \<exists>x \<in> set xs. g x = Inl e"
  by (induction xs arbitrary: e) (auto split: sum.splits)








subsection \<open>C1: the six components and the unit interval\<close>

text \<open>
  C1 says that each of the six risk components, computed by the active-wallet or by the
  inactive-wallet algorithm, lies in \<open>[0,1]\<close> for every feature vector. The inactive
  algorithm clamps on both sides (\<open>inactive_components_in_unit\<close>); the active
  algorithm only takes \<^verbatim>\<open>min(1.0, ...)\<close>, so its components are at most 1
  (\<open>active_components_le_one\<close>) but have no lower bound. For the wallet of
  \<open>burst_features\<close> (three transfers within the last 30 days, so that
  \<^verbatim>\<open>activity_decline\<close> is \<open>1 - 3 / max (3/12) 1 = -2\<close>) the active algorithm returns the
  liquidation risk \<open>-1/5\<close>.
\<close>

theorem burst_liquidation_risk_negative:
  "is_active_wallet burst_features \<and>
   activity_decline burst_features = - 2 \<and>
   liquidation_risk (calculate_improved_risk_components draw burst_features) = - 1 / 5 \<and>
   \<not> components_in_unit (calculate_improved_risk_components draw burst_features)"
  by (simp add: burst_features_def components_in_unit_def calculate_improved_risk_components_def
      extract_comprehensive_features_def snapshot_def transfer_at_def Let_def numeral_3_eq_3)

subsection \<open>C2: the composite score\<close>

text \<open>
  C2: the weighted score is the sum of the six components times the fixed weights
  (0.25, 0.20, 0.15, 0.15, 0.15, 0.10); the returned score always lies in \<open>[0,1000]\<close>;
  for an active wallet it is \<open>weighted * 800 + 100 - engagement * 100 - maturity * 50\<close>
  clamped to \<open>[0,1000]\<close>; for an inactive wallet it is \<open>200 + weighted * 500\<close> and lies
  in \<open>[200,700]\<close>, both for any components in the unit interval and for the components
  the calculator returns for that wallet.
\<close>

theorem composite_score_formula:
  "weighted_score rc =
     liquidation_risk rc * 0.25 + volatility_risk rc * 0.20 + concentration_risk rc * 0.15
     + activity_risk rc * 0.15 + leverage_risk rc * 0.15 + liquidity_risk rc * 0.10
   \<and> 0 \<le> calculate_composite_score rc f \<and> calculate_composite_score rc f \<le> 1000
   \<and> (is_active_wallet f \<longrightarrow>
        calculate_composite_score rc f =
          max 0 (min 1000 (weighted_score rc * 800 + 100
                           - engagement_score f * 100 - wallet_maturity f * 50)))
   \<and> (\<not> is_active_wallet f \<and> components_in_unit rc \<longrightarrow>
        calculate_composite_score rc f = 200 + weighted_score rc * 500
        \<and> 200 \<le> calculate_composite_score rc f \<and> calculate_composite_score rc f \<le> 700)
   \<and> (\<not> is_active_wallet f \<longrightarrow>
        calculate_composite_score (calculate_improved_risk_components draw f) f
          = 200 + weighted_score (calculate_improved_risk_components draw f) * 500
        \<and> 200 \<le> calculate_composite_score (calculate_improved_risk_components draw f) f
        \<and> calculate_composite_score (calculate_improved_risk_components draw f) f \<le> 700)"
proof -
  have sum: "weighted_score rc =
     liquidation_risk rc * 0.25 + volatility_risk rc * 0.20 + concentration_risk rc * 0.15
     + activity_risk rc * 0.15 + leverage_risk rc * 0.15 + liquidity_risk rc * 0.10"
    by (simp add: weighted_score_def)
  have range: "0 \<le> calculate_composite_score rc f \<and> calculate_composite_score rc f \<le> 1000"
    by (simp add: calculate_composite_score_def Let_def)
  have active: "is_active_wallet f \<longrightarrow>
        calculate_composite_score rc f =
          max 0 (min 1000 (weighted_score rc * 800 + 100
                           - engagement_score f * 100 - wallet_maturity f * 50))"
    by (simp add: calculate_composite_score_def Let_def)
  have inactive: "calculate_composite_score r f = 200 + weighted_score r * 500
        \<and> 200 \<le> calculate_composite_score r f \<and> calculate_composite_score r f \<le> 700"
    if "\<not> is_active_wallet f" "components_in_unit r" for r
  proof -
    from weighted_score_unit [OF that(2)]
    have w: "0 \<le> weighted_score r" "weighted_score r \<le> 1" by simp_all
    have eq: "calculate_composite_score r f = max 0 (min 1000 (200 + weighted_score r * 500))"
      using that(1) by (simp add: calculate_composite_score_def Let_def)
    from w show ?thesis unfolding eq by (simp add: max_def min_def)
  qed
  have pipeline: "components_in_unit (calculate_improved_risk_components draw f)"
    if "\<not> is_active_wallet f"
    using that by (simp add: inactive_dispatch inactive_components_in_unit)
  from sum range active inactive pipeline show ?thesis by blast
qed

text \<open>
  At the never-used wallet with a zero draw the score is \<open>200 + 0.335 * 500 = 367.5\<close>;
  at the active wallet \<open>burst_features\<close> with all components one half it is
  \<open>0.5 * 800 + 100 = 500\<close>.
\<close>

theorem composite_score_formula_witness:
  "\<not> is_active_wallet unused_features
   \<and> calculate_composite_score
        (calculate_improved_risk_components (fixed_draw 0) unused_features) unused_features
       = 735 / 2
   \<and> components_in_unit
        \<lparr> liquidation_risk = 1 / 2, volatility_risk = 1 / 2, concentration_risk = 1 / 2,
          activity_risk = 1 / 2, leverage_risk = 1 / 2, liquidity_risk = 1 / 2 \<rparr>
   \<and> calculate_composite_score
        \<lparr> liquidation_risk = 1 / 2, volatility_risk = 1 / 2, concentration_risk = 1 / 2,
          activity_risk = 1 / 2, leverage_risk = 1 / 2, liquidity_risk = 1 / 2 \<rparr>
        unused_features = 450
   \<and> is_active_wallet burst_features
   \<and> calculate_composite_score
        \<lparr> liquidation_risk = 1 / 2, volatility_risk = 1 / 2, concentration_risk = 1 / 2,
          activity_risk = 1 / 2, leverage_risk = 1 / 2, liquidity_risk = 1 / 2 \<rparr>
        burst_features = 500"
proof -
  let ?half = "\<lparr> liquidation_risk = 1 / 2, volatility_risk = 1 / 2, concentration_risk = 1 / 2,
      activity_risk = 1 / 2, leverage_risk = 1 / 2, liquidity_risk = 1 / 2 \<rparr>"
  let ?rc = "calculate_improved_risk_components (fixed_draw 0) unused_features"
  have inactive: "\<not> is_active_wallet unused_features"
    by (simp add: unused_features_def extract_comprehensive_features_def
        get_inactive_wallet_features_def Let_def)
  have active: "is_active_wallet burst_features"
    by (simp add: burst_features_def extract_comprehensive_features_def snapshot_def Let_def)
  have bonus: "engagement_score burst_features = 0" "wallet_maturity burst_features = 0"
    by (simp_all add: burst_features_def extract_comprehensive_features_def transfer_at_def
        Let_def numeral_3_eq_3)
  have half: "components_in_unit ?half"
    by (simp add: components_in_unit_def)
  have w_half: "weighted_score ?half = 1 / 2"
    by (simp add: weighted_score_def)
  have base: "base_risks unused_features =
      \<lparr> liquidation_risk = 0.2, volatility_risk = 0.1, concentration_risk = 0.3,
        activity_risk = 0.9, leverage_risk = 0.1, liquidity_risk = 0.7 \<rparr>"
    by (simp add: base_risks_def unused_features_def extract_comprehensive_features_def
        get_inactive_wallet_features_def snapshot_def Let_def)
  have w_rc: "weighted_score ?rc = 67 / 200"
    by (simp add: inactive_dispatch [OF inactive] calculate_inactive_wallet_risk_def base
        fixed_draw_def perturb_def weighted_score_def)
  from composite_score_formula [of ?rc unused_features "fixed_draw 0"] inactive
  have s1: "calculate_composite_score ?rc unused_features = 200 + weighted_score ?rc * 500"
    by blast
  from composite_score_formula [of ?half unused_features "fixed_draw 0"] inactive half
  have s2: "calculate_composite_score ?half unused_features = 200 + weighted_score ?half * 500"
    by blast
  from composite_score_formula [of ?half burst_features "fixed_draw 0"] active
  have s3: "calculate_composite_score ?half burst_features =
      max 0 (min 1000 (weighted_score ?half * 800 + 100
                       - engagement_score burst_features * 100
                       - wallet_maturity burst_features * 50))"
    by blast
  show ?thesis
    unfolding s1 s2 s3 w_half w_rc bonus using inactive active half by simp
qed

subsection \<open>C3: the category table\<close>

text \<open>
  C3: the categorisation is total and contiguous. Every score gets one of the five
  labels; the label is "Very Low" exactly up to 150, "Low" exactly above 150 and up to
  350, "Medium" exactly above 350 and up to 550, "High" exactly above 550 and up to 750,
  "Very High" exactly above 750; each of the boundary values 150, 350, 550, 750 belongs
  to the lower category. The five ranges are disjoint and cover the reals, so a score
  has exactly one category.
\<close>

theorem categorize_risk_table:
  "categorize_risk s \<in> {''Very Low'', ''Low'', ''Medium'', ''High'', ''Very High''}
   \<and> (categorize_risk s = ''Very Low'' \<longleftrightarrow> s \<le> 150)
   \<and> (categorize_risk s = ''Low'' \<longleftrightarrow> 150 < s \<and> s \<le> 350)
   \<and> (categorize_risk s = ''Medium'' \<longleftrightarrow> 350 < s \<and> s \<le> 550)
   \<and> (categorize_risk s = ''High'' \<longleftrightarrow> 550 < s \<and> s \<le> 750)
   \<and> (categorize_risk s = ''Very High'' \<longleftrightarrow> 750 < s)
   \<and> categorize_risk 150 = ''Very Low'' \<and> categorize_risk 350 = ''Low''
   \<and> categorize_risk 550 = ''Medium'' \<and> categorize_risk 750 = ''High''"
  by (simp add: categorize_risk_def)

subsection \<open>C4: the orchestrator turns a raised exception into a failure record\<close>



subsection \<open>C5: no transactions, inactive shape\<close>

text \<open>
  C5: when the transaction list is empty, extraction returns the inactive construction
  whatever the snapshot's \<^verbatim>\<open>is_active\<close> says: the wallet is marked inactive, every
  transaction-derived field is zero, \<^verbatim>\<open>days_since_last_tx\<close> is 999,
  \<^verbatim>\<open>activity_decline\<close> is 1, and the modifier is one of 0.3, 0.6, 0.8, 0.5; for a
  snapshot with non-negative count and balance it is chosen by the two tests
  \<open>count = 0\<close> and \<open>balance = 0\<close>.
\<close>

theorem empty_transactions_inactive_features:
  "extract_comprehensive_features now a info [] = get_inactive_wallet_features info
   \<and> (let f = extract_comprehensive_features now a info [] in
        \<not> is_active_wallet f
        \<and> eth_balance f = info_eth_balance info
        \<and> total_tx_count f = info_total_tx_count info
        \<and> analyzed_transactions f = 0 \<and> successful_transactions f = 0
        \<and> failed_transactions f = 0 \<and> success_rate f = 0
        \<and> compound_transactions f = 0 \<and> defi_transactions f = 0
        \<and> compound_ratio f = 0 \<and> defi_ratio f = 0
        \<and> total_volume_eth f = 0 \<and> avg_tx_value_eth f = 0 \<and> max_tx_value_eth f = 0
        \<and> volume_volatility f = 0 \<and> large_tx_count f = 0 \<and> large_tx_ratio f = 0
        \<and> days_since_first_tx f = 0 \<and> avg_monthly_frequency f = 0
        \<and> recent_activity_count f = 0
        \<and> wallet_maturity f = 0 \<and> engagement_score f = 0 \<and> volume_concentration f = 0
        \<and> days_since_last_tx f = 999
        \<and> activity_decline f = 1
        \<and> inactive_risk_modifier f \<in> {Some 0.3, Some 0.6, Some 0.8, Some 0.5}
        \<and> (0 \<le> info_total_tx_count info \<and> 0 \<le> info_eth_balance info \<longrightarrow>
             inactive_risk_modifier f =
               Some (if info_total_tx_count info = 0
                     then (if info_eth_balance info = 0 then 0.3 else 0.6)
                     else (if info_eth_balance info = 0 then 0.8 else 0.5))))"
  by (simp add: extract_comprehensive_features_def get_inactive_wallet_features_def Let_def)

text \<open>A snapshot that claims to be active, with two ether and no transactions.\<close>

theorem empty_transactions_inactive_features_witness:
  "(0::int) \<le> info_total_tx_count
       \<lparr> info_eth_balance = 2, info_total_tx_count = 0, info_is_active = True \<rparr>
   \<and> (0::real) \<le> info_eth_balance
       \<lparr> info_eth_balance = 2, info_total_tx_count = 0, info_is_active = True \<rparr>
   \<and> \<not> is_active_wallet (extract_comprehensive_features 0 ''0xabc''
        \<lparr> info_eth_balance = 2, info_total_tx_count = 0, info_is_active = True \<rparr> [])
   \<and> inactive_risk_modifier (extract_comprehensive_features 0 ''0xabc''
        \<lparr> info_eth_balance = 2, info_total_tx_count = 0, info_is_active = True \<rparr> [])
       = Some 0.6"
  using empty_transactions_inactive_features
    [of 0 "''0xabc''"
      "\<lparr> info_eth_balance = 2, info_total_tx_count = 0, info_is_active = True \<rparr>"]
  by (simp add: Let_def extract_comprehensive_features_def)

subsection \<open>C6: base risks of the inactive branch\<close>

text \<open>
  C6: for an inactive wallet with no transaction count and no balance the base risks
  are exactly 0.2, 0.1, 0.3, 0.9, 0.1, 0.7; with no transaction count and a balance of 5
  the liquidity base risk is \<open>0.6 * (1 - min 1 (5/10)) = 0.3\<close> and the other five are
  0.3, 0.2, 0.4, 0.8, 0.2. These are the values before the perturbation: each returned
  component is the perturbed base risk.
\<close>

theorem inactive_base_risks_examples:
  "(total_tx_count f = 0 \<and> eth_balance f = 0 \<longrightarrow>
      base_risks f =
        \<lparr> liquidation_risk = 0.2, volatility_risk = 0.1, concentration_risk = 0.3,
          activity_risk = 0.9, leverage_risk = 0.1, liquidity_risk = 0.7 \<rparr>)
   \<and> (total_tx_count f = 0 \<and> eth_balance f = 5 \<longrightarrow>
      liquidity_risk (base_risks f) = 0.6 * (1 - min 1 (5 / 10))
      \<and> liquidity_risk (base_risks f) = 0.3
      \<and> liquidation_risk (base_risks f) = 0.3 \<and> volatility_risk (base_risks f) = 0.2
      \<and> concentration_risk (base_risks f) = 0.4 \<and> activity_risk (base_risks f) = 0.8
      \<and> leverage_risk (base_risks f) = 0.2)
   \<and> component_of c (calculate_inactive_wallet_risk draw f)
        = perturb (draw (eth_balance f)) (component_of c (base_risks f))"
  by (cases c) (simp_all add: base_risks_def calculate_inactive_wallet_risk_def Let_def)

theorem inactive_base_risks_examples_witness:
  "total_tx_count (get_inactive_wallet_features (snapshot 0 0)) = 0
   \<and> eth_balance (get_inactive_wallet_features (snapshot 0 0)) = 0
   \<and> liquidity_risk (base_risks (get_inactive_wallet_features (snapshot 0 0))) = 0.7
   \<and> total_tx_count (get_inactive_wallet_features (snapshot 5 0)) = 0
   \<and> eth_balance (get_inactive_wallet_features (snapshot 5 0)) = 5
   \<and> liquidity_risk (base_risks (get_inactive_wallet_features (snapshot 5 0))) = 0.3"
  using inactive_base_risks_examples [of "get_inactive_wallet_features (snapshot 0 0)"]
    inactive_base_risks_examples [of "get_inactive_wallet_features (snapshot 5 0)"]
  by (simp add: get_inactive_wallet_features_def snapshot_def Let_def)

subsection \<open>C7: the liquidation risk of an active wallet\<close>

text \<open>
  C7 says that for an active wallet the liquidation risk is
  \<open>0.3 * (1 - success_rate) + 0.3 * min 1 (days_since_last_tx / 90)
   + 0.2 * (1 - engagement_score) + 0.2 * activity_decline\<close> clamped to \<open>[0,1]\<close>, and that
  it is 0 for success rate 1, 0 days, engagement 1 and decline 0. The code takes the
  minimum of 1 and that sum (\<open>active_liquidation_risk\<close>), which is 0 at the input the
  claim names (\<open>active_liquidation_risk_zero\<close>), and never raises a negative sum to 0.
  At \<open>burst_features\<close> the sum is \<open>0.2 - 0.4\<close>: the code returns a negative risk where
  the clamped formula gives 0.
\<close>

theorem burst_liquidation_risk_unclamped:
  "is_active_wallet burst_features \<and>
   liquidation_risk (calculate_improved_risk_components draw burst_features) < 0 \<and>
   max 0 (min 1 (0.3 * (1 - success_rate burst_features)
                 + 0.3 * min 1 (real_of_int (days_since_last_tx burst_features) / 90)
                 + 0.2 * (1 - engagement_score burst_features)
                 + 0.2 * activity_decline burst_features)) = 0"
  by (simp add: burst_features_def calculate_improved_risk_components_def
      extract_comprehensive_features_def snapshot_def transfer_at_def Let_def numeral_3_eq_3)

subsection \<open>C8: what the result depends on\<close>




subsection \<open>C9: volume concentration\<close>

text \<open>
  C9 says that for a feature vector of the active shape with positive total volume the
  volume concentration is the largest transaction value divided by the total volume.
  The code divides by \<^verbatim>\<open>max(total_volume, 1)\<close>: one transfer of half an ether has total
  volume 0.5 and concentration 0.5, where the quotient is 1.
\<close>

theorem volume_concentration_below_one_eth:
  "0 < total_volume_eth (extract_comprehensive_features 1700000000 ''0xabc'' (snapshot 1 1)
         [transfer_at 1700000000 (5 * 10 ^ 17)])
   \<and> volume_concentration (extract_comprehensive_features 1700000000 ''0xabc'' (snapshot 1 1)
         [transfer_at 1700000000 (5 * 10 ^ 17)]) = 1 / 2
   \<and> max_tx_value_eth (extract_comprehensive_features 1700000000 ''0xabc'' (snapshot 1 1)
         [transfer_at 1700000000 (5 * 10 ^ 17)])
       / total_volume_eth (extract_comprehensive_features 1700000000 ''0xabc'' (snapshot 1 1)
         [transfer_at 1700000000 (5 * 10 ^ 17)]) = 1"
  by (simp add: extract_comprehensive_features_def snapshot_def transfer_at_def Let_def)

text \<open>
  C9 as the code has it: for a non-empty transaction list the volume concentration is
  the largest value divided by the larger of the total volume and 1, hence the plain
  quotient whenever the total volume is at least 1.
\<close>

theorem volume_concentration_guarded:
  "txs \<noteq> [] \<longrightarrow>
     (let f = extract_comprehensive_features now a info txs in
        volume_concentration f = max_tx_value_eth f / max (total_volume_eth f) 1
        \<and> (1 \<le> total_volume_eth f \<longrightarrow>
             volume_concentration f = max_tx_value_eth f / total_volume_eth f))"
  by (simp add: extract_comprehensive_features_def Let_def max_def)

text \<open>Transfers of two and six ether: total 8, largest 6, concentration 3/4.\<close>

theorem volume_concentration_guarded_witness:
  "[transfer_at 1700000000 (2 * 10 ^ 18), transfer_at 1700000000 (6 * 10 ^ 18)] \<noteq> []
   \<and> total_volume_eth (extract_comprehensive_features 1700000000 ''0xabc'' (snapshot 1 2)
        [transfer_at 1700000000 (2 * 10 ^ 18), transfer_at 1700000000 (6 * 10 ^ 18)]) = 8
   \<and> max_tx_value_eth (extract_comprehensive_features 1700000000 ''0xabc'' (snapshot 1 2)
        [transfer_at 1700000000 (2 * 10 ^ 18), transfer_at 1700000000 (6 * 10 ^ 18)]) = 6
   \<and> volume_concentration (extract_comprehensive_features 1700000000 ''0xabc'' (snapshot 1 2)
        [transfer_at 1700000000 (2 * 10 ^ 18), transfer_at 1700000000 (6 * 10 ^ 18)]) = 3 / 4"
proof -
  let ?txs = "[transfer_at 1700000000 (2 * 10 ^ 18), transfer_at 1700000000 (6 * 10 ^ 18)]"
  let ?f = "extract_comprehensive_features 1700000000 ''0xabc'' (snapshot 1 2) ?txs"
  have ne: "?txs \<noteq> []" by simp
  have total: "total_volume_eth ?f = 8"
    by (simp add: extract_comprehensive_features_def transfer_at_def Let_def)
  have mx: "max_tx_value_eth ?f = 6"
    by (simp add: extract_comprehensive_features_def transfer_at_def Let_def)
  from volume_concentration_guarded [of ?txs 1700000000 "''0xabc''" "snapshot 1 2"] ne
  have "1 \<le> total_volume_eth ?f \<longrightarrow> volume_concentration ?f = max_tx_value_eth ?f / total_volume_eth ?f"
    by (simp add: Let_def)
  with total mx have "volume_concentration ?f = 3 / 4" by simp
  with ne total mx show ?thesis by simp
qed

subsection \<open>C10: one perturbation for all six components\<close>

text \<open>
  C10: in the inactive branch one value is drawn and added to each of the six base
  risks before clamping, so the order of the base risks is kept: whenever base risk
  \<open>i\<close> is at most base risk \<open>j\<close>, final component \<open>i\<close> is at most final component \<open>j\<close>.
\<close>

theorem inactive_perturbation_monotone:
  "component_of i (calculate_inactive_wallet_risk draw f)
     = max 0 (min 1 (component_of i (base_risks f) + draw (eth_balance f)))
   \<and> (component_of i (base_risks f) \<le> component_of j (base_risks f) \<longrightarrow>
        component_of i (calculate_inactive_wallet_risk draw f)
          \<le> component_of j (calculate_inactive_wallet_risk draw f))"
proof -
  have final: "component_of k (calculate_inactive_wallet_risk draw f)
      = perturb (draw (eth_balance f)) (component_of k (base_risks f))" for k
    by (cases k) (simp_all add: calculate_inactive_wallet_risk_def Let_def)
  show ?thesis
    using perturb_mono [of "component_of i (base_risks f)" "component_of j (base_risks f)"]
    by (auto simp add: final perturb_def)
qed

text \<open>
  The never-used wallet with a draw of \<open>-0.25\<close>: liquidation 0.2 becomes 0, activity
  0.9 becomes 0.65.
\<close>

theorem inactive_perturbation_monotone_witness:
  "component_of Liquidation (base_risks unused_features)
     \<le> component_of Activity (base_risks unused_features)
   \<and> component_of Liquidation (calculate_inactive_wallet_risk (fixed_draw (- 1 / 4)) unused_features) = 0
   \<and> component_of Activity (calculate_inactive_wallet_risk (fixed_draw (- 1 / 4)) unused_features)
       = 13 / 20
   \<and> component_of Liquidation (calculate_inactive_wallet_risk (fixed_draw (- 1 / 4)) unused_features)
       \<le> component_of Activity (calculate_inactive_wallet_risk (fixed_draw (- 1 / 4)) unused_features)"
proof -
  let ?rc = "calculate_inactive_wallet_risk (fixed_draw (- 1 / 4)) unused_features"
  have le: "component_of Liquidation (base_risks unused_features)
     \<le> component_of Activity (base_risks unused_features)"
    by (simp add: unused_base_risks)
  note m = inactive_perturbation_monotone [of _ "fixed_draw (- 1 / 4)" unused_features]
  from m [of Liquidation Activity]
  have liq: "component_of Liquidation ?rc = 0"
    by (simp add: unused_base_risks fixed_draw_def)
  from m [of Activity Liquidation]
  have act: "component_of Activity ?rc = 13 / 20"
    by (simp add: unused_base_risks fixed_draw_def)
  from m [of Liquidation Activity] le
  have "component_of Liquidation ?rc \<le> component_of Activity ?rc" by blast
  with le liq act show ?thesis by simp
qed

end
